theory Spec2Isabelle
  imports Main
begin

section \<open>Local static server (server.py)\<close>

text \<open>
  The program is a short script around the platform's HTTP file server. Everything it
  does is an effect on the process or a call into the platform, so the embedding makes
  both explicit: the platform is an environment record that says how each call the
  script makes comes out (returns, raises, or never returns), and the process is a
  state record threaded through the script.
\<close>

subsection \<open>Exceptions and the outcome of a call\<close>

text \<open>
  \<open>OSError\<close> stands for the class with all its subclasses, as \<open>except OSError\<close>
  catches them. \<open>Other\<close> carries the class name of any exception the script never
  names.
\<close>

datatype exn = OSError | KeyboardInterrupt | AttributeError | EOFError | Other string

datatype 'a result = Returns 'a | Raises exn | Blocks

subsection \<open>Module constants\<close>

definition HOST :: string where
  "HOST = ''127.0.0.1''"

definition PORT :: int where
  "PORT = 8000"

definition START_PAGE :: string where
  "START_PAGE = ''main.html''"

subsection \<open>The process and its environment\<close>

text \<open>
  What \<open>os.stat\<close> finds under a name of a directory: a regular file or a directory
  (links are followed, so a dangling link is no entry).
\<close>

datatype entry = RegularFile | Directory

text \<open>
  The object \<open>socketserver.TCPServer((HOST, port), handler)\<close> returns: its address
  and the directory the handler factory passes to every \<open>QuietHandler\<close>.
\<close>

record tcp_server =
  server_host :: string
  server_port :: int
  handler_directory :: string

datatype event =
    Chdir string
  | Printed string
  | Prompted string
  | Bind_failed int
  | Bound int
  | Browser string
  | Serving int
  | Closed int

record process =
  cwd :: string
  open_listeners :: "tcp_server list"
  trace :: "event list"

definition initial_process :: "string \<Rightarrow> process" where
  "initial_process d = \<lparr>cwd = d, open_listeners = [], trace = []\<rparr>"

text \<open>
  The environment of one run. \<open>sys_frozen\<close> is the attribute \<open>sys.frozen\<close> by its
  truth value, \<open>None\<close> when the attribute is absent; \<open>sys_MEIPASS\<close> is
  \<open>sys._MEIPASS\<close>. \<open>abspath\<close> and \<open>dirname\<close> are \<open>os.path.abspath\<close> and
  \<open>os.path.dirname\<close> of the platform. \<open>dir_entries d\<close> is the content of directory
  \<open>d\<close>, \<open>None\<close> when \<open>d\<close> is no directory. The remaining fields give the outcome
  of each platform call by its argument.
\<close>

record env =
  sys_frozen :: "bool option"
  sys_MEIPASS :: "string option"
  module_file :: string
  abspath :: "string \<Rightarrow> string"
  dirname :: "string \<Rightarrow> string"
  dir_entries :: "string \<Rightarrow> (string \<rightharpoonup> entry) option"
  print_result :: "string \<Rightarrow> unit result"
  input_result :: "string \<Rightarrow> string result"
  bind_result :: "int \<Rightarrow> unit result"
  browser_result :: "string \<Rightarrow> bool result"
  serve_forever_result :: "int \<Rightarrow> unit result"

type_synonym 'a io = "process \<Rightarrow> 'a result \<times> process"

definition io_bind :: "'a io \<Rightarrow> ('a \<Rightarrow> 'b io) \<Rightarrow> 'b io" where
  "io_bind m f s =
     (case m s of
        (Returns x, s') \<Rightarrow> f x s'
      | (Raises e, s') \<Rightarrow> (Raises e, s')
      | (Blocks, s') \<Rightarrow> (Blocks, s'))"

definition io_then :: "'a io \<Rightarrow> 'b io \<Rightarrow> 'b io" where
  "io_then m k = io_bind m (\<lambda>_. k)"

definition log_event :: "event \<Rightarrow> process \<Rightarrow> process" where
  "log_event ev s = s\<lparr>trace := trace s @ [ev]\<rparr>"

subsection \<open>Attribute access\<close>

definition getattr_default :: "'a option \<Rightarrow> 'a \<Rightarrow> 'a" where
  "getattr_default a d = (case a of None \<Rightarrow> d | Some v \<Rightarrow> v)"

definition hasattr :: "'a option \<Rightarrow> bool" where
  "hasattr a = (a \<noteq> None)"

definition attribute :: "'a option \<Rightarrow> 'a result" where
  "attribute a = (case a of None \<Rightarrow> Raises AttributeError | Some v \<Rightarrow> Returns v)"

subsection \<open>get_base_dir\<close>

definition get_base_dir :: "env \<Rightarrow> string result" where
  "get_base_dir env =
     (if getattr_default (sys_frozen env) False \<and> hasattr (sys_MEIPASS env)
      then attribute (sys_MEIPASS env)
      else Returns (dirname env (abspath env (module_file env))))"

subsection \<open>Platform calls\<close>

definition os_chdir :: "env \<Rightarrow> string \<Rightarrow> unit io" where
  "os_chdir env d s =
     (case dir_entries env d of
        None \<Rightarrow> (Raises OSError, s)
      | Some _ \<Rightarrow> (Returns (), log_event (Chdir d) (s\<lparr>cwd := d\<rparr>)))"

text \<open>A relative name is looked up in the current working directory.\<close>

definition os_path_exists :: "env \<Rightarrow> string \<Rightarrow> process \<Rightarrow> bool" where
  "os_path_exists env name s =
     (case dir_entries env (cwd s) of
        None \<Rightarrow> False
      | Some es \<Rightarrow> es name \<noteq> None)"

definition py_print :: "env \<Rightarrow> string \<Rightarrow> unit io" where
  "py_print env text s =
     (case print_result env text of
        Returns _ \<Rightarrow> (Returns (), log_event (Printed text) s)
      | Raises e \<Rightarrow> (Raises e, s)
      | Blocks \<Rightarrow> (Blocks, s))"

definition py_input :: "env \<Rightarrow> string \<Rightarrow> string io" where
  "py_input env prompt s =
     (case input_result env prompt of
        Returns line \<Rightarrow> (Returns line, log_event (Prompted prompt) s)
      | Raises e \<Rightarrow> (Raises e, s)
      | Blocks \<Rightarrow> (Blocks, s))"

definition webbrowser_open :: "env \<Rightarrow> string \<Rightarrow> bool io" where
  "webbrowser_open env url s =
     (case browser_result env url of
        Returns b \<Rightarrow> (Returns b, log_event (Browser url) s)
      | Raises e \<Rightarrow> (Raises e, s)
      | Blocks \<Rightarrow> (Blocks, s))"

definition server_close :: "tcp_server \<Rightarrow> process \<Rightarrow> process" where
  "server_close httpd s =
     log_event (Closed (server_port httpd))
       (s\<lparr>open_listeners := removeAll httpd (open_listeners s)\<rparr>)"

subsection \<open>Decimal text of an integer\<close>

definition digit_char :: "nat \<Rightarrow> char" where
  "digit_char d = ''0123456789'' ! d"

fun str_nat :: "nat \<Rightarrow> string" where
  "str_nat n = (if n < 10 then [digit_char n] else str_nat (n div 10) @ [digit_char (n mod 10)])"

declare str_nat.simps [simp del]

definition str_int :: "int \<Rightarrow> string" where
  "str_int i = (if i < 0 then CHR ''-'' # str_nat (nat (- i)) else str_nat (nat i))"

subsection \<open>The port search of run_server\<close>

text \<open>
  The \<open>while\<close> loop of \<open>run_server\<close> with its loop variables \<open>port\<close> and
  \<open>httpd\<close>: the result is their value when the loop is left. \<open>httpd\<close> starts as
  \<open>None\<close> and is assigned only by the constructor call that is followed by
  \<open>break\<close>. The constructor releases its own socket when it raises.
\<close>

function probe_ports :: "env \<Rightarrow> string \<Rightarrow> int \<Rightarrow> (int \<times> tcp_server option) io" where
  "probe_ports env base_dir port s =
     (if port < PORT + 20 then
        (case bind_result env port of
           Returns _ \<Rightarrow>
             (let httpd = \<lparr>server_host = HOST, server_port = port,
                           handler_directory = base_dir\<rparr>
              in (Returns (port, Some httpd),
                  log_event (Bound port) (s\<lparr>open_listeners := open_listeners s @ [httpd]\<rparr>)))
         | Raises e \<Rightarrow>
             (if e = OSError
              then probe_ports env base_dir (port + 1) (log_event (Bind_failed port) s)
              else (Raises e, log_event (Bind_failed port) s))
         | Blocks \<Rightarrow> (Blocks, s))
      else (Returns (port, None), s))"
  by pat_completeness auto
termination
  by (relation "measure (\<lambda>(env, base_dir, port, s). nat (PORT + 20 - port))") auto

declare probe_ports.simps [simp del]

subsection \<open>run_server\<close>

definition newline :: char where
  "newline = CHR 0x0A"

text \<open>
  The body of \<open>run_server\<close> is embedded in the order of the source, with four of its
  statement blocks named: the two fatal exits (the body of \<open>if not
  os.path.exists(START_PAGE)\<close> and the body of \<open>if httpd is None\<close>), the eight
  \<open>print\<close> calls of the banner, and the final \<open>try\<close> statement.
\<close>

definition exit_start_page_missing :: "env \<Rightarrow> string \<Rightarrow> unit io" where
  "exit_start_page_missing env base_dir =
     io_then (py_print env (''ERROR: '' @ START_PAGE @ '' not found in:'' @ [newline] @ base_dir))
    (io_then (py_input env ''Press Enter to exit...'')
             (\<lambda>s. (Returns (), s)))"

definition exit_no_port :: "env \<Rightarrow> unit io" where
  "exit_no_port env =
     io_then (py_print env ''ERROR: Could not bind to a port (8000-8019).'')
    (io_then (py_input env ''Press Enter to exit...'')
             (\<lambda>s. (Returns (), s)))"

definition banner :: "string \<Rightarrow> string \<Rightarrow> string list" where
  "banner base_dir url =
     [''==================================='',
      '' Local site server is running'',
      ''-----------------------------------'',
      '' Folder: '' @ base_dir,
      '' URL:    '' @ url,
      ''==================================='',
      ''Leave this window open while using the site.'',
      ''Close it to stop the server.'' @ [newline]]"

text \<open>One \<open>print\<close> call per line, in order; the first that raises ends the sequence.\<close>

fun print_lines :: "env \<Rightarrow> string list \<Rightarrow> unit io" where
  "print_lines env [] = (\<lambda>s. (Returns (), s))"
| "print_lines env (l # ls) = io_then (py_print env l) (print_lines env ls)"

text \<open>
  \<open>try: httpd.serve_forever()\<close>, \<open>except KeyboardInterrupt: pass\<close>,
  \<open>finally: httpd.server_close()\<close>. A \<open>serve_forever\<close> that never returns leaves
  the statement, and so \<open>run_server\<close>, never left.
\<close>

definition serve_until_interrupt :: "env \<Rightarrow> tcp_server \<Rightarrow> unit io" where
  "serve_until_interrupt env httpd s =
     (let s1 = log_event (Serving (server_port httpd)) s in
      case serve_forever_result env (server_port httpd) of
        Returns _ \<Rightarrow> (Returns (), server_close httpd s1)
      | Raises e \<Rightarrow>
          (if e = KeyboardInterrupt then Returns () else Raises e, server_close httpd s1)
      | Blocks \<Rightarrow> (Blocks, s1))"

definition make_url :: "int \<Rightarrow> string" where
  "make_url port = ''http://'' @ HOST @ '':'' @ str_int port @ ''/'' @ START_PAGE"

definition run_server :: "env \<Rightarrow> unit io" where
  "run_server env =
     io_bind (\<lambda>s. (get_base_dir env, s)) (\<lambda>base_dir.
     io_then (os_chdir env base_dir) (\<lambda>s.
       if \<not> os_path_exists env START_PAGE s then exit_start_page_missing env base_dir s
       else
         io_bind (probe_ports env base_dir PORT) (\<lambda>(port, httpd).
           case httpd of
             None \<Rightarrow> exit_no_port env
           | Some httpd \<Rightarrow>
               (let url = make_url port in
                io_then (print_lines env (banner base_dir url))
               (io_then (webbrowser_open env url)
                        (serve_until_interrupt env httpd)))) s))"

text \<open>
  The script's last lines call \<open>run_server()\<close> and end. The interpreter's exit status
  is 0 when the call returns and not 0 when an exception leaves it; a call that never
  returns gives no status.
\<close>

definition exit_status :: "unit result \<Rightarrow> int option" where
  "exit_status r =
     (case r of
        Returns _ \<Rightarrow> Some 0
      | Raises e \<Rightarrow> Some (if e = KeyboardInterrupt then 130 else 1)
      | Blocks \<Rightarrow> None)"

definition main :: "env \<Rightarrow> string \<Rightarrow> int option" where
  "main env d = exit_status (fst (run_server env (initial_process d)))"

subsection \<open>QuietHandler\<close>

text \<open>The two streams a diagnostic line could be written to.\<close>

record streams =
  stdout :: "string list"
  stderr :: "string list"

text \<open>
  A request handler class by what the class statement of \<open>QuietHandler\<close> can change:
  the constructor (the positional arguments and the \<open>directory\<close> keyword), the
  \<open>log_message\<close> hook (format, arguments, effect on the streams), and every other
  attribute of the class, looked up by its name (\<open>translate_path\<close>, \<open>guess_type\<close>,
  \<open>send_error\<close>, \<open>do_GET\<close>, ...).
\<close>

record ('a, 'h, 'm) handler_class =
  init :: "'a \<Rightarrow> string option \<Rightarrow> 'h"
  log_message :: "string \<Rightarrow> string list \<Rightarrow> streams \<Rightarrow> streams"
  attr :: "string \<Rightarrow> 'm"

text \<open>
  \<open>class QuietHandler(base)\<close>: \<open>__init__\<close> hands its arguments and \<open>directory\<close>
  to the constructor of the base class, \<open>log_message\<close> is \<open>pass\<close>, and the class
  body defines nothing else, so every other attribute is the one of the base class.
\<close>

definition QuietHandler :: "('a, 'h, 'm) handler_class \<Rightarrow> ('a, 'h, 'm) handler_class" where
  "QuietHandler base =
     \<lparr>init = (\<lambda>args directory. init base args directory),
      log_message = (\<lambda>format args s. s),
      attr = attr base\<rparr>"

text \<open>
  The factory \<open>run_server\<close> gives the listener:
  \<open>lambda *args, **kwargs: QuietHandler(*args, directory=base_dir, **kwargs)\<close>.
\<close>

definition handler :: "('a, 'h, 'm) handler_class \<Rightarrow> string \<Rightarrow> 'a \<Rightarrow> 'h" where
  "handler base base_dir args = init (QuietHandler base) args (Some base_dir)"

text \<open>
  The handler of the platform (\<open>http.server\<close>) writes its own diagnostics, the
  access line of \<open>log_request\<close> and the messages of \<open>log_error\<close>, only by calling
  the \<open>log_message\<close> of the handler's class. \<open>log_calls cls calls\<close> is the effect
  on the streams of such calls, in order, each a format with its arguments.
\<close>

fun log_calls :: "('a, 'h, 'm) handler_class \<Rightarrow> (string \<times> string list) list \<Rightarrow> streams \<Rightarrow> streams" where
  "log_calls cls [] s = s"
| "log_calls cls ((format, args) # calls) s = log_calls cls calls (log_message cls format args s)"

text \<open>
  One request as the listener sees it: the printed address of the client, the
  \<open>log_message\<close> calls the handler makes while it handles the request, and, when the
  handling raises an \<open>Exception\<close> (a connection reset by the client, say), the lines
  of its traceback.
\<close>

record request =
  client_address :: string
  logged :: "(string \<times> string list) list"
  failure :: "string list option"

text \<open>
  \<open>socketserver.BaseServer.handle_error\<close>, which neither \<open>TCPServer\<close> nor
  \<open>server.py\<close> overrides: a rule of 40 dashes, a line that names the client, the
  traceback, and the rule again, all on standard error.
\<close>

definition handle_error :: "string \<Rightarrow> string list \<Rightarrow> streams \<Rightarrow> streams" where
  "handle_error client tb s =
     s\<lparr>stderr := stderr s @
          [replicate 40 CHR ''-'',
           ''Exception occurred during processing of request from '' @ client] @
          tb @ [replicate 40 CHR ''-'']\<rparr>"

text \<open>
  \<open>socketserver.BaseServer._handle_request_noblock\<close>, by what it writes: the request
  is processed by a handler of the class, and \<open>except Exception\<close> calls
  \<open>handle_error\<close>.
\<close>

definition handle_request_noblock :: "('a, 'h, 'm) handler_class \<Rightarrow> request \<Rightarrow> streams \<Rightarrow> streams" where
  "handle_request_noblock cls req s =
     (let s1 = log_calls cls (logged req) s in
      case failure req of
        None \<Rightarrow> s1
      | Some tb \<Rightarrow> handle_error (client_address req) tb s1)"

text \<open>
  A base class whose \<open>log_message\<close> appends its format to standard error, where
  the handler of the platform writes the formatted line; a request for the start page
  that is served, with its access line; and a request during which the client resets
  the connection.
\<close>

definition stderr_handler :: "(unit, unit, unit) handler_class" where
  "stderr_handler =
     \<lparr>init = (\<lambda>args directory. ()),
      log_message = (\<lambda>format args s. s\<lparr>stderr := stderr s @ [format]\<rparr>),
      attr = (\<lambda>name. ())\<rparr>"

definition served_request :: request where
  "served_request =
     \<lparr>client_address = ''127.0.0.1:50000'',
      logged = [(''%s %s %s'', [''GET /main.html HTTP/1.1'', ''200'', ''-''])],
      failure = None\<rparr>"

definition reset_request :: request where
  "reset_request =
     \<lparr>client_address = ''127.0.0.1:50001'',
      logged = [],
      failure = Some [''ConnectionResetError: [Errno 104] Connection reset by peer'']\<rparr>"

subsection \<open>Example environments\<close>

text \<open>
  A plain run from source: the script lies in \<open>/site\<close> next to \<open>main.html\<close>, the
  console works, every port is free, the browser opens, and the user ends the run
  with Ctrl-C while the server is serving.
\<close>

definition site_env :: env where
  "site_env =
     \<lparr>sys_frozen = None, sys_MEIPASS = None, module_file = ''/site/server.py'',
      abspath = (\<lambda>p. p), dirname = (\<lambda>p. ''/site''),
      dir_entries = (\<lambda>d. if d = ''/site'' then Some [''main.html'' \<mapsto> RegularFile] else None),
      print_result = (\<lambda>_. Returns ()),
      input_result = (\<lambda>_. Returns []),
      bind_result = (\<lambda>_. Returns ()),
      browser_result = (\<lambda>_. Returns True),
      serve_forever_result = (\<lambda>_. Raises KeyboardInterrupt)\<rparr>"

section \<open>Properties\<close>

subsection \<open>Sequencing and frames\<close>

lemma io_bind_cases:
  assumes "io_bind m f s = (r, s'')"
  obtains (continued) x s' where "m s = (Returns x, s')" and "f x s' = (r, s'')"
  | (raised) e where "m s = (Raises e, s'')" and "r = Raises e"
  | (blocked) "m s = (Blocks, s'')" and "r = Blocks"
proof (cases "m s")
  case (Pair r' s')
  with assms show ?thesis
    by (cases r') (auto simp: io_bind_def intro: continued raised blocked)
qed

lemma io_then_cases:
  assumes "io_then m k s = (r, s'')"
  obtains (continued) x s' where "m s = (Returns x, s')" and "k s' = (r, s'')"
  | (raised) e where "m s = (Raises e, s'')" and "r = Raises e"
  | (blocked) "m s = (Blocks, s'')" and "r = Blocks"
  using assms unfolding io_then_def by (rule io_bind_cases)

lemma py_print_frame:
  "py_print env t s = (r, s') \<Longrightarrow>
     cwd s' = cwd s \<and> open_listeners s' = open_listeners s \<and>
     (Serving p \<in> set (trace s') \<longleftrightarrow> Serving p \<in> set (trace s))"
  by (auto simp: py_print_def log_event_def split: result.splits)

lemma py_input_frame:
  "py_input env t s = (r, s') \<Longrightarrow>
     cwd s' = cwd s \<and> open_listeners s' = open_listeners s \<and>
     (Serving p \<in> set (trace s') \<longleftrightarrow> Serving p \<in> set (trace s))"
  by (auto simp: py_input_def log_event_def split: result.splits)

lemma webbrowser_open_frame:
  "webbrowser_open env t s = (r, s') \<Longrightarrow>
     cwd s' = cwd s \<and> open_listeners s' = open_listeners s \<and>
     (Serving p \<in> set (trace s') \<longleftrightarrow> Serving p \<in> set (trace s))"
  by (auto simp: webbrowser_open_def log_event_def split: result.splits)

lemma print_lines_frame:
  "print_lines env ls s = (r, s') \<Longrightarrow>
     cwd s' = cwd s \<and> open_listeners s' = open_listeners s \<and>
     (Serving p \<in> set (trace s') \<longleftrightarrow> Serving p \<in> set (trace s))"
proof (induction ls arbitrary: s)
  case Nil
  then show ?case by simp
next
  case (Cons l ls)
  from Cons.prems have "io_then (py_print env l) (print_lines env ls) s = (r, s')"
    by simp
  then show ?case
  proof (cases rule: io_then_cases)
    case (continued x s1)
    with Cons.IH [of s1] py_print_frame [of env l s "Returns x" s1 p] show ?thesis
      by simp
  next
    case (raised e)
    with py_print_frame [of env l s "Raises e" s' p] show ?thesis by simp
  next
    case blocked
    with py_print_frame [of env l s Blocks s' p] show ?thesis by simp
  qed
qed

lemma exit_start_page_missing_frame:
  "exit_start_page_missing env b s = (r, s') \<Longrightarrow>
     cwd s' = cwd s \<and> open_listeners s' = open_listeners s \<and>
     (Serving p \<in> set (trace s') \<longleftrightarrow> Serving p \<in> set (trace s))"
  by (auto simp: exit_start_page_missing_def io_then_def io_bind_def py_print_def py_input_def
        log_event_def split: result.splits)

lemma exit_no_port_frame:
  "exit_no_port env s = (r, s') \<Longrightarrow>
     cwd s' = cwd s \<and> open_listeners s' = open_listeners s \<and>
     (Serving p \<in> set (trace s') \<longleftrightarrow> Serving p \<in> set (trace s))"
  by (auto simp: exit_no_port_def io_then_def io_bind_def py_print_def py_input_def
        log_event_def split: result.splits)

lemma probe_ports_frame:
  "probe_ports env b port s = (r, s') \<Longrightarrow>
     cwd s' = cwd s \<and>
     (Serving p \<in> set (trace s') \<longleftrightarrow> Serving p \<in> set (trace s)) \<and>
     (case r of
        Returns (q, Some h) \<Rightarrow>
          h = \<lparr>server_host = HOST, server_port = q, handler_directory = b\<rparr> \<and>
          open_listeners s' = open_listeners s @ [h]
      | _ \<Rightarrow> open_listeners s' = open_listeners s)"
proof (induction env b port s rule: probe_ports.induct)
  case (1 env b port s)
  show ?case
  proof (cases "port < PORT + 20")
    case False
    with "1.prems" show ?thesis
      by (auto simp: probe_ports.simps [of env b port s])
  next
    case inr: True
    show ?thesis
    proof (cases "bind_result env port")
      case (Returns u)
      with inr "1.prems" show ?thesis
        by (auto simp: probe_ports.simps [of env b port s] log_event_def Let_def)
    next
      case Blocks
      with inr "1.prems" show ?thesis
        by (auto simp: probe_ports.simps [of env b port s])
    next
      case (Raises e)
      show ?thesis
      proof (cases "e = OSError")
        case True
        with inr Raises "1.prems"
        have "probe_ports env b (port + 1) (log_event (Bind_failed port) s) = (r, s')"
          by (simp add: probe_ports.simps [of env b port s])
        from "1.IH" [OF inr Raises True this] show ?thesis
          by (auto simp: log_event_def split: result.splits option.splits)
      next
        case False
        with inr Raises "1.prems" show ?thesis
          by (auto simp: probe_ports.simps [of env b port s] log_event_def)
      qed
    qed
  qed
qed

subsection \<open>The port search\<close>

lemma probe_ports_first_free:
  assumes "port \<le> p" and "p < PORT + 20"
    and "\<And>q. port \<le> q \<Longrightarrow> q < p \<Longrightarrow> bind_result env q = Raises OSError"
    and "bind_result env p = Returns ()"
  shows "probe_ports env b port s =
           (Returns (p, Some \<lparr>server_host = HOST, server_port = p, handler_directory = b\<rparr>),
            s\<lparr>open_listeners := open_listeners s @
                   [\<lparr>server_host = HOST, server_port = p, handler_directory = b\<rparr>],
              trace := trace s @ map Bind_failed [port..p - 1] @ [Bound p]\<rparr>)"
  using assms
proof (induction env b port s rule: probe_ports.induct)
  case (1 env b port s)
  show ?case
  proof (cases "port = p")
    case True
    with "1.prems" show ?thesis
      by (simp add: probe_ports.simps [of env b p s] log_event_def Let_def)
  next
    case False
    with "1.prems" have lt: "port < p" and busy: "bind_result env port = Raises OSError"
      by auto
    from lt "1.prems" have inr: "port < PORT + 20"
      by simp
    have step: "probe_ports env b port s =
                  probe_ports env b (port + 1) (log_event (Bind_failed port) s)"
      using inr busy by (simp add: probe_ports.simps [of env b port s])
    have rest: "probe_ports env b (port + 1) (log_event (Bind_failed port) s) =
           (Returns (p, Some \<lparr>server_host = HOST, server_port = p, handler_directory = b\<rparr>),
            (log_event (Bind_failed port) s)\<lparr>open_listeners :=
                 open_listeners (log_event (Bind_failed port) s) @
                   [\<lparr>server_host = HOST, server_port = p, handler_directory = b\<rparr>],
              trace := trace (log_event (Bind_failed port) s) @
                         map Bind_failed [port + 1..p - 1] @ [Bound p]\<rparr>)"
      using "1.IH" [OF inr busy refl] lt "1.prems" by simp
    have "[port..p - 1] = port # [port + 1..p - 1]"
      using lt by (simp add: upto_rec1)
    with step rest show ?thesis
      by (simp add: log_event_def)
  qed
qed

lemma probe_ports_exhausted:
  assumes "port \<le> PORT + 20"
    and "\<And>q. port \<le> q \<Longrightarrow> q < PORT + 20 \<Longrightarrow> bind_result env q = Raises OSError"
  shows "probe_ports env b port s =
           (Returns (PORT + 20, None),
            s\<lparr>trace := trace s @ map Bind_failed [port..PORT + 19]\<rparr>)"
  using assms
proof (induction env b port s rule: probe_ports.induct)
  case (1 env b port s)
  show ?case
  proof (cases "port = PORT + 20")
    case True
    then show ?thesis
      by (simp add: probe_ports.simps [of env b "PORT + 20" s])
  next
    case False
    with "1.prems" have inr: "port < PORT + 20"
      by simp
    with "1.prems" have busy: "bind_result env port = Raises OSError"
      by simp
    have step: "probe_ports env b port s =
                  probe_ports env b (port + 1) (log_event (Bind_failed port) s)"
      using inr busy by (simp add: probe_ports.simps [of env b port s])
    have rest: "probe_ports env b (port + 1) (log_event (Bind_failed port) s) =
           (Returns (PORT + 20, None),
            (log_event (Bind_failed port) s)\<lparr>trace :=
               trace (log_event (Bind_failed port) s) @ map Bind_failed [port + 1..PORT + 19]\<rparr>)"
      using "1.IH" [OF inr busy refl] inr "1.prems" by simp
    have "[port..PORT + 19] = port # [port + 1..PORT + 19]"
      using inr by (simp add: upto_rec1)
    with step rest show ?thesis
      by (simp add: log_event_def)
  qed
qed

subsection \<open>The paths through run_server\<close>

lemma print_lines_ok:
  assumes "\<And>t. t \<in> set ls \<Longrightarrow> print_result env t = Returns ()"
  shows "print_lines env ls s = (Returns (), s\<lparr>trace := trace s @ map Printed ls\<rparr>)"
  using assms
proof (induction ls arbitrary: s)
  case Nil
  show ?case by simp
next
  case (Cons l ls)
  then show ?case
    by (simp add: io_then_def io_bind_def py_print_def log_event_def)
qed

lemma startup_ok:
  assumes "get_base_dir env = Returns b" and "dir_entries env b = Some es"
    and "es START_PAGE \<noteq> None"
  shows "run_server env s =
           io_bind (probe_ports env b PORT) (\<lambda>(port, httpd).
             case httpd of
               None \<Rightarrow> exit_no_port env
             | Some httpd \<Rightarrow>
                 io_then (print_lines env (banner b (make_url port)))
                (io_then (webbrowser_open env (make_url port))
                         (serve_until_interrupt env httpd)))
             (log_event (Chdir b) (s\<lparr>cwd := b\<rparr>))"
  using assms
  by (simp add: run_server_def io_bind_def io_then_def os_chdir_def os_path_exists_def
        log_event_def Let_def split: prod.splits result.splits option.splits)

lemma startup_missing:
  assumes "get_base_dir env = Returns b" and "dir_entries env b = Some es"
    and "es START_PAGE = None"
  shows "run_server env s = exit_start_page_missing env b (log_event (Chdir b) (s\<lparr>cwd := b\<rparr>))"
  using assms
  by (simp add: run_server_def io_bind_def io_then_def os_chdir_def os_path_exists_def
        log_event_def)

lemma tail_events:
  "io_then (webbrowser_open env url) (serve_until_interrupt env h) s = (r, s') \<Longrightarrow>
     \<exists>rest. trace s' = trace s @ rest \<and>
            set rest \<subseteq> {Browser url, Serving (server_port h), Closed (server_port h)}"
  by (auto simp: io_then_def io_bind_def webbrowser_open_def serve_until_interrupt_def
        server_close_def log_event_def Let_def split: result.splits if_splits)

lemma os_chdir_result:
  "os_chdir env b s = (r, s') \<Longrightarrow>
     (r = Returns () \<and> dir_entries env b \<noteq> None \<and> s' = log_event (Chdir b) (s\<lparr>cwd := b\<rparr>)) \<or>
     (r = Raises OSError \<and> dir_entries env b = None \<and> s' = s)"
  by (auto simp: os_chdir_def split: option.splits)

lemma serve_until_interrupt_trace:
  "serve_until_interrupt env h s = (r, s') \<Longrightarrow>
     cwd s' = cwd s \<and>
     (trace s' = trace s @ [Serving (server_port h)] \<or>
      trace s' = trace s @ [Serving (server_port h), Closed (server_port h)])"
  by (auto simp: serve_until_interrupt_def server_close_def log_event_def Let_def
        split: result.splits)

text \<open>
  A run whose trace shows \<open>serve_forever\<close> entered on port \<open>p\<close> has passed every
  earlier statement, holds exactly the listener bound to \<open>p\<close>, and ends as the
  \<open>try\<close> statement ends.
\<close>

lemma reach_serving:
  assumes run: "run_server env (initial_process d) = (r, s')"
    and serving: "Serving p \<in> set (trace s')"
  obtains b s where "get_base_dir env = Returns b" and "cwd s = b"
    and "open_listeners s = [\<lparr>server_host = HOST, server_port = p, handler_directory = b\<rparr>]"
    and "Serving p \<notin> set (trace s)"
    and "serve_until_interrupt env \<lparr>server_host = HOST, server_port = p, handler_directory = b\<rparr> s
           = (r, s')"
proof -
  let ?s0 = "initial_process d"
  have s0: "trace ?s0 = []" "open_listeners ?s0 = []"
    by (simp_all add: initial_process_def)
  from run have "io_bind (\<lambda>s. (get_base_dir env, s)) (\<lambda>base_dir.
     io_then (os_chdir env base_dir) (\<lambda>s.
       if \<not> os_path_exists env START_PAGE s then exit_start_page_missing env base_dir s
       else
         io_bind (probe_ports env base_dir PORT) (\<lambda>(port, httpd).
           case httpd of
             None \<Rightarrow> exit_no_port env
           | Some httpd \<Rightarrow>
               (let url = make_url port in
                io_then (print_lines env (banner base_dir url))
               (io_then (webbrowser_open env url)
                        (serve_until_interrupt env httpd)))) s)) ?s0 = (r, s')"
    by (simp add: run_server_def)
  then show ?thesis
  proof (cases rule: io_bind_cases)
    case (raised e)
    with serving s0 show ?thesis by auto
  next
    case blocked
    with serving s0 show ?thesis by auto
  next
    case (continued b s1)
    then have base: "get_base_dir env = Returns b" and s1: "s1 = ?s0"
      by auto
    from continued(2) show ?thesis
    proof (cases rule: io_then_cases)
      case (raised e)
      with os_chdir_result [of env b s1 "Raises e" s'] serving s0 s1 show ?thesis
        by auto
    next
      case blocked
      with os_chdir_result [of env b s1 Blocks s'] show ?thesis
        by auto
    next
      case (continued x s2)
      with os_chdir_result [of env b s1 "Returns x" s2] s1 s0
      have s2: "cwd s2 = b" "open_listeners s2 = []" "trace s2 = [Chdir b]"
        by (auto simp: log_event_def)
      show ?thesis
      proof (cases "os_path_exists env START_PAGE s2")
        case False
        with continued(2) have "exit_start_page_missing env b s2 = (r, s')"
          by simp
        from exit_start_page_missing_frame [OF this, of p] serving s2 show ?thesis
          by simp
      next
        case True
        with continued(2) have "io_bind (probe_ports env b PORT) (\<lambda>(port, httpd).
           case httpd of
             None \<Rightarrow> exit_no_port env
           | Some httpd \<Rightarrow>
               (let url = make_url port in
                io_then (print_lines env (banner b url))
               (io_then (webbrowser_open env url)
                        (serve_until_interrupt env httpd)))) s2 = (r, s')"
          by simp
        then show ?thesis
        proof (cases rule: io_bind_cases)
          case (raised e)
          from probe_ports_frame [OF raised(1), of p] serving s2 show ?thesis
            by simp
        next
          case blocked
          from probe_ports_frame [OF blocked(1), of p] serving s2 show ?thesis
            by simp
        next
          case (continued y s3)
          obtain port httpd where y: "y = (port, httpd)"
            by (cases y)
          note frame3 = probe_ports_frame [OF continued(1) [unfolded y], of p]
          show ?thesis
          proof (cases httpd)
            case None
            with continued(2) y have "exit_no_port env s3 = (r, s')"
              by simp
            from exit_no_port_frame [OF this, of p] frame3 serving s2 show ?thesis
              by simp
          next
            case (Some h)
            with frame3 s2 have h: "h = \<lparr>server_host = HOST, server_port = port, handler_directory = b\<rparr>"
              and s3: "cwd s3 = b" "open_listeners s3 = [h]" "Serving p \<notin> set (trace s3)"
              by simp_all
            from continued(2) y Some
            have "io_then (print_lines env (banner b (make_url port)))
                   (io_then (webbrowser_open env (make_url port))
                            (serve_until_interrupt env h)) s3 = (r, s')"
              by (simp add: Let_def)
            then show ?thesis
            proof (cases rule: io_then_cases)
              case (raised e)
              from print_lines_frame [OF raised(1), of p] serving s3 show ?thesis
                by simp
            next
              case blocked
              from print_lines_frame [OF blocked(1), of p] serving s3 show ?thesis
                by simp
            next
              case (continued u s4)
              from print_lines_frame [OF continued(1), of p] s3
              have s4: "cwd s4 = b" "open_listeners s4 = [h]" "Serving p \<notin> set (trace s4)"
                by simp_all
              from continued(2) show ?thesis
              proof (cases rule: io_then_cases)
                case (raised e)
                from webbrowser_open_frame [OF raised(1), of p] serving s4 show ?thesis
                  by simp
              next
                case blocked
                from webbrowser_open_frame [OF blocked(1), of p] serving s4 show ?thesis
                  by simp
              next
                case (continued v s5)
                from webbrowser_open_frame [OF continued(1), of p] s4
                have s5: "cwd s5 = b" "open_listeners s5 = [h]" "Serving p \<notin> set (trace s5)"
                  by simp_all
                from serve_until_interrupt_trace [OF continued(2)] serving s5 h
                have "p = port"
                  by auto
                with that [of b s5] base s5 h continued(2) show ?thesis
                  by simp
              qed
            qed
          qed
        qed
      qed
    qed
  qed
qed

text \<open>The plain run, evaluated.\<close>

lemma site_env_run:
  "run_server site_env (initial_process ''/home/user'') =
     (Returns (),
      \<lparr>cwd = ''/site'', open_listeners = [],
       trace = [Chdir ''/site'', Bound 8000] @
               map Printed (banner ''/site'' ''http://127.0.0.1:8000/main.html'') @
               [Browser ''http://127.0.0.1:8000/main.html'', Serving 8000, Closed 8000]\<rparr>)"
  by (simp add: run_server_def io_bind_def io_then_def get_base_dir_def getattr_default_def
        os_chdir_def os_path_exists_def site_env_def START_PAGE_def PORT_def HOST_def
        probe_ports.simps Let_def log_event_def initial_process_def make_url_def
        str_int_def str_nat.simps digit_char_def banner_def py_print_def webbrowser_open_def
        serve_until_interrupt_def server_close_def)

section \<open>The claims\<close>

subsection \<open>Base directory\<close>

text \<open>
  C7. \<open>get_base_dir\<close> returns for every state of the runtime, never raises and never
  blocks: when \<open>sys.frozen\<close> is set to a true value and \<open>sys._MEIPASS\<close> is present
  it returns \<open>sys._MEIPASS\<close>, and in every other case it returns the directory of the
  absolute path of the program's own file. The guard \<open>hasattr\<close> is what keeps the
  attribute access from raising \<open>AttributeError\<close>.
\<close>

theorem get_base_dir_total:
  "get_base_dir env =
     Returns (case (sys_frozen env, sys_MEIPASS env) of
                (Some True, Some d) \<Rightarrow> d
              | _ \<Rightarrow> dirname env (abspath env (module_file env)))"
  by (simp add: get_base_dir_def getattr_default_def hasattr_def attribute_def
           split: option.splits bool.splits)

subsection \<open>Port exhaustion\<close>

text \<open>
  C2. When the start page is there and the constructor raises \<open>OSError\<close> on each of
  the 20 ports 8000..8019, \<open>run_server\<close> tries exactly these ports in order, prints
  the error that names the range 8000-8019, reads one line of input and returns. No
  listener is held at the end and \<open>serve_forever\<close> is never entered. The console
  calls are taken to return, as the claim's reading of a line presupposes.
\<close>

theorem port_exhaustion:
  assumes "get_base_dir env = Returns b" and "dir_entries env b = Some es"
    and "es START_PAGE \<noteq> None"
    and "\<forall>q\<in>{8000..8019}. bind_result env q = Raises OSError"
    and "print_result env ''ERROR: Could not bind to a port (8000-8019).'' = Returns ()"
    and "input_result env ''Press Enter to exit...'' = Returns line"
  shows "run_server env (initial_process d) =
           (Returns (),
            \<lparr>cwd = b, open_listeners = [],
             trace = Chdir b # map Bind_failed [8000..8019] @
                     [Printed ''ERROR: Could not bind to a port (8000-8019).'',
                      Prompted ''Press Enter to exit...'']\<rparr>)"
proof -
  let ?s0 = "log_event (Chdir b) ((initial_process d)\<lparr>cwd := b\<rparr>)"
  have "probe_ports env b PORT ?s0 =
          (Returns (PORT + 20, None), ?s0\<lparr>trace := trace ?s0 @ map Bind_failed [PORT..PORT + 19]\<rparr>)"
    using assms(4) by (intro probe_ports_exhausted) (simp_all add: PORT_def)
  then show ?thesis
    using startup_ok [OF assms(1-3), of "initial_process d"] assms(5,6)
    by (simp add: io_bind_def io_then_def exit_no_port_def py_print_def py_input_def
          log_event_def initial_process_def PORT_def)
qed

theorem port_exhaustion_witness:
  "run_server (site_env\<lparr>bind_result := (\<lambda>_. Raises OSError)\<rparr>) (initial_process ''/home/user'') =
     (Returns (),
      \<lparr>cwd = ''/site'', open_listeners = [],
       trace = Chdir ''/site'' # map Bind_failed [8000..8019] @
               [Printed ''ERROR: Could not bind to a port (8000-8019).'',
                Prompted ''Press Enter to exit...'']\<rparr>)"
  using port_exhaustion [of "site_env\<lparr>bind_result := (\<lambda>_. Raises OSError)\<rparr>" "''/site''"
           "[''main.html'' \<mapsto> RegularFile]" "[]" "''/home/user''"]
  by (simp add: get_base_dir_def getattr_default_def site_env_def START_PAGE_def)

subsection \<open>Missing start page\<close>

text \<open>
  C3. When the base directory has no entry \<open>main.html\<close>, no run of \<open>run_server\<close>
  constructs or binds a listener: its trace has no bind attempt and it holds no
  listener at the end, whatever the console does. When the \<open>print\<close> and the
  \<open>input\<close> return, the run prints the error that names \<open>main.html\<close> and the
  directory, reads one line of input and returns.
\<close>

theorem start_page_missing:
  assumes "get_base_dir env = Returns b" and "dir_entries env b = Some es"
    and "es START_PAGE = None"
  shows "open_listeners (snd (run_server env (initial_process d))) = [] \<and>
         (\<forall>q. Bind_failed q \<notin> set (trace (snd (run_server env (initial_process d)))) \<and>
              Bound q \<notin> set (trace (snd (run_server env (initial_process d))))) \<and>
         (print_result env (''ERROR: main.html not found in:'' @ [newline] @ b) = Returns () \<and>
          (\<exists>line. input_result env ''Press Enter to exit...'' = Returns line) \<longrightarrow>
          run_server env (initial_process d) =
            (Returns (),
             \<lparr>cwd = b, open_listeners = [],
              trace = [Chdir b, Printed (''ERROR: main.html not found in:'' @ [newline] @ b),
                       Prompted ''Press Enter to exit...'']\<rparr>))"
  using startup_missing [OF assms, of "initial_process d"]
  by (auto simp: exit_start_page_missing_def io_then_def io_bind_def py_print_def py_input_def
        log_event_def initial_process_def START_PAGE_def split: result.splits)

theorem start_page_missing_witness:
  "run_server (site_env\<lparr>dir_entries := (\<lambda>d. if d = ''/site'' then Some Map.empty else None)\<rparr>)
     (initial_process ''/home/user'') =
     (Returns (),
      \<lparr>cwd = ''/site'', open_listeners = [],
       trace = [Chdir ''/site'', Printed (''ERROR: main.html not found in:'' @ [newline] @ ''/site''),
                Prompted ''Press Enter to exit...'']\<rparr>)"
  using start_page_missing [of "site_env\<lparr>dir_entries := (\<lambda>d. if d = ''/site'' then Some Map.empty else None)\<rparr>"
           "''/site''" Map.empty "''/home/user''"]
  by (simp add: get_base_dir_def getattr_default_def site_env_def)

subsection \<open>Port allocation\<close>

text \<open>
  C1. When the start page is there and the console works, and \<open>p\<close> is the first
  port from 8000 on, below 8020, whose bind succeeds, every port before it raising
  \<open>OSError\<close>: \<open>run_server\<close> tries the ports 8000, 8001, ... in ascending order,
  passes over each failure, binds \<open>p\<close> and tries no further port, and the banner it
  prints carries the URL with port \<open>p\<close>. With 8000 occupied and 8001 free, \<open>p\<close>
  is 8001 and the banner line is \<open>URL:    http://127.0.0.1:8001/main.html\<close>.
\<close>

theorem port_allocation_first_free:
  assumes "get_base_dir env = Returns b" and "dir_entries env b = Some es"
    and "es START_PAGE \<noteq> None"
    and "\<And>t. print_result env t = Returns ()"
    and "PORT \<le> p" and "p < PORT + 20"
    and "\<And>q. PORT \<le> q \<Longrightarrow> q < p \<Longrightarrow> bind_result env q = Raises OSError"
    and "bind_result env p = Returns ()"
  shows "\<exists>rest. trace (snd (run_server env (initial_process d))) =
            Chdir b # map Bind_failed [PORT..p - 1] @ [Bound p] @
            map Printed (banner b (''http://127.0.0.1:'' @ str_int p @ ''/main.html'')) @ rest \<and>
            set rest \<subseteq> {Browser (''http://127.0.0.1:'' @ str_int p @ ''/main.html''),
                         Serving p, Closed p}"
proof -
  let ?h = "\<lparr>server_host = HOST, server_port = p, handler_directory = b\<rparr>"
  let ?s0 = "log_event (Chdir b) ((initial_process d)\<lparr>cwd := b\<rparr>)"
  let ?s1 = "?s0\<lparr>open_listeners := open_listeners ?s0 @ [?h],
                 trace := trace ?s0 @ map Bind_failed [PORT..p - 1] @ [Bound p]\<rparr>"
  let ?s2 = "?s1\<lparr>trace := trace ?s1 @ map Printed (banner b (make_url p))\<rparr>"
  have url: "make_url p = ''http://127.0.0.1:'' @ str_int p @ ''/main.html''"
    by (simp add: make_url_def HOST_def START_PAGE_def)
  have probe: "probe_ports env b PORT ?s0 = (Returns (p, Some ?h), ?s1)"
    using assms(5-8) by (rule probe_ports_first_free)
  have lines: "print_lines env (banner b (make_url p)) ?s1 = (Returns (), ?s2)"
    using assms(4) by (rule print_lines_ok)
  obtain r s' where tail:
    "io_then (webbrowser_open env (make_url p)) (serve_until_interrupt env ?h) ?s2 = (r, s')"
    by force
  have run: "run_server env (initial_process d) = (r, s')"
    using startup_ok [OF assms(1-3), of "initial_process d"] probe lines tail
    by (simp add: io_bind_def io_then_def)
  from tail_events [OF tail] obtain rest where
    "trace s' = trace ?s2 @ rest"
    "set rest \<subseteq> {Browser (make_url p), Serving p, Closed p}"
    by auto
  with run url show ?thesis
    by (simp add: log_event_def initial_process_def)
qed

lemma str_8001: "str_int 8001 = ''8001''"
  by (simp add: str_int_def str_nat.simps digit_char_def)

theorem port_allocation_first_free_witness:
  "\<exists>rest. trace (snd (run_server
              (site_env\<lparr>bind_result := (\<lambda>q. if q = 8000 then Raises OSError else Returns ())\<rparr>)
              (initial_process ''/home/user''))) =
     [Chdir ''/site'', Bind_failed 8000, Bound 8001,
      Printed ''==================================='',
      Printed '' Local site server is running'',
      Printed ''-----------------------------------'',
      Printed '' Folder: /site'',
      Printed '' URL:    http://127.0.0.1:8001/main.html'',
      Printed ''==================================='',
      Printed ''Leave this window open while using the site.'',
      Printed (''Close it to stop the server.'' @ [newline])] @ rest \<and>
     set rest \<subseteq> {Browser ''http://127.0.0.1:8001/main.html'', Serving 8001, Closed 8001}"
proof -
  let ?env = "site_env\<lparr>bind_result := (\<lambda>q. if q = 8000 then Raises OSError else Returns ())\<rparr>"
  have base: "get_base_dir ?env = Returns ''/site''"
    by (simp add: get_base_dir_def getattr_default_def site_env_def)
  have dir: "dir_entries ?env ''/site'' = Some [''main.html'' \<mapsto> RegularFile]"
    by (simp add: site_env_def)
  have page: "[''main.html'' \<mapsto> RegularFile] START_PAGE \<noteq> None"
    by (simp add: START_PAGE_def)
  have console: "\<And>t. print_result ?env t = Returns ()"
    by (simp add: site_env_def)
  have busy: "\<And>q. PORT \<le> q \<Longrightarrow> q < 8001 \<Longrightarrow> bind_result ?env q = Raises OSError"
    by (simp add: PORT_def)
  have free: "bind_result ?env 8001 = Returns ()"
    by simp
  have upto: "[8000..8000::int] = [8000]"
    by (simp add: upto_rec1)
  from port_allocation_first_free [OF base dir page console _ _ busy free, of "''/home/user''"]
  show ?thesis
    by (simp add: PORT_def upto banner_def str_8001)
qed

subsection \<open>Interrupt while serving\<close>

text \<open>
  C5. A run that has entered \<open>serve_forever\<close> on port \<open>p\<close>, where
  \<open>KeyboardInterrupt\<close> is then raised, catches the interrupt: \<open>run_server\<close> returns
  normally, the last two events are the entry into the serve loop and the closing of
  the listener, no listener is held at the end, and the exit status is 0.
\<close>

theorem interrupt_is_clean_shutdown:
  assumes "Serving p \<in> set (trace (snd (run_server env (initial_process d))))"
    and "serve_forever_result env p = Raises KeyboardInterrupt"
  shows "fst (run_server env (initial_process d)) = Returns () \<and>
         open_listeners (snd (run_server env (initial_process d))) = [] \<and>
         (\<exists>pre. trace (snd (run_server env (initial_process d))) = pre @ [Serving p, Closed p]) \<and>
         main env d = Some 0"
proof -
  obtain r s' where run: "run_server env (initial_process d) = (r, s')"
    by force
  with assms(1) have "Serving p \<in> set (trace s')"
    by simp
  with run obtain b s where
    listeners: "open_listeners s = [\<lparr>server_host = HOST, server_port = p, handler_directory = b\<rparr>]"
    and serve: "serve_until_interrupt env
                  \<lparr>server_host = HOST, server_port = p, handler_directory = b\<rparr> s = (r, s')"
    by (rule reach_serving)
  from serve assms(2) listeners
  have "r = Returns ()" and "open_listeners s' = []"
    and "trace s' = trace s @ [Serving p, Closed p]"
    by (auto simp: serve_until_interrupt_def server_close_def log_event_def Let_def)
  with run show ?thesis
    by (simp add: main_def exit_status_def)
qed

theorem interrupt_is_clean_shutdown_witness:
  "fst (run_server site_env (initial_process ''/home/user'')) = Returns () \<and>
   open_listeners (snd (run_server site_env (initial_process ''/home/user''))) = [] \<and>
   (\<exists>pre. trace (snd (run_server site_env (initial_process ''/home/user''))) =
           pre @ [Serving 8000, Closed 8000]) \<and>
   main site_env ''/home/user'' = Some 0"
proof -
  have "Serving 8000 \<in> set (trace (snd (run_server site_env (initial_process ''/home/user''))))"
    by (simp add: site_env_run)
  moreover have "serve_forever_result site_env 8000 = Raises KeyboardInterrupt"
    by (simp add: site_env_def)
  ultimately show ?thesis
    by (rule interrupt_is_clean_shutdown)
qed

subsection \<open>Exit status of the fatal conditions\<close>



subsection \<open>Release of the listener\<close>

text \<open>
  C4. The listener is not closed on every exit after its creation. The \<open>try\<close>
  statement whose \<open>finally\<close> closes the listener begins only at \<open>serve_forever\<close>;
  the banner and the browser launch come between the constructor and the \<open>try\<close>.
  When the browser launch raises, or a \<open>print\<close> of the banner raises, \<open>run_server\<close>
  is left by that exception with the listener on port 8000 still open and no
  \<open>server_close\<close> in its trace.
\<close>

theorem listener_left_open_on_early_exception:
  "run_server (site_env\<lparr>browser_result := (\<lambda>_. Raises (Other ''webbrowser.Error''))\<rparr>)
     (initial_process ''/home/user'') =
     (Raises (Other ''webbrowser.Error''),
      \<lparr>cwd = ''/site'',
       open_listeners = [\<lparr>server_host = ''127.0.0.1'', server_port = 8000,
                          handler_directory = ''/site''\<rparr>],
       trace = [Chdir ''/site'', Bound 8000] @
               map Printed (banner ''/site'' ''http://127.0.0.1:8000/main.html'')\<rparr>) \<and>
   run_server (site_env\<lparr>print_result :=
                  (\<lambda>t. if t = '' Folder: /site'' then Raises (Other ''UnicodeEncodeError'')
                       else Returns ())\<rparr>)
     (initial_process ''/home/user'') =
     (Raises (Other ''UnicodeEncodeError''),
      \<lparr>cwd = ''/site'',
       open_listeners = [\<lparr>server_host = ''127.0.0.1'', server_port = 8000,
                          handler_directory = ''/site''\<rparr>],
       trace = [Chdir ''/site'', Bound 8000,
                Printed ''==================================='',
                Printed '' Local site server is running'',
                Printed ''-----------------------------------'']\<rparr>)"
  by (simp add: run_server_def io_bind_def io_then_def get_base_dir_def getattr_default_def
        os_chdir_def os_path_exists_def site_env_def START_PAGE_def PORT_def HOST_def
        probe_ports.simps Let_def log_event_def initial_process_def make_url_def
        str_int_def str_nat.simps digit_char_def banner_def py_print_def webbrowser_open_def)

subsection \<open>Request handler\<close>

lemma log_calls_QuietHandler:
  "log_calls (QuietHandler base) calls s = s"
  by (induction calls arbitrary: s) (auto simp: QuietHandler_def)

text \<open>
  C8, as the code has it. \<open>QuietHandler\<close> silences what the handler logs, not what
  the listener reports. For every request, over any base class, standard output is
  left as it was, and when the handling completes standard error is too, whatever the
  handler logs through \<open>log_message\<close>. When the handling raises, the listener's own
  \<open>handle_error\<close>, which \<open>server.py\<close> leaves in place, writes its traceback block to
  standard error, and nothing else is written. Every other attribute of the class is
  the attribute of the base class, and the constructor is the constructor of the base
  class, which the factory of \<open>run_server\<close> calls with the base directory.
\<close>

theorem quiet_handler_silent_unless_handling_raises:
  "stdout (handle_request_noblock (QuietHandler base) req s) = stdout s \<and>
   (failure req = None \<longrightarrow> handle_request_noblock (QuietHandler base) req s = s) \<and>
   (\<forall>tb. failure req = Some tb \<longrightarrow>
         handle_request_noblock (QuietHandler base) req s =
           handle_error (client_address req) tb s) \<and>
   attr (QuietHandler base) = attr base \<and>
   init (QuietHandler base) = init base \<and>
   handler base base_dir args = init base args (Some base_dir)"
proof -
  have run: "handle_request_noblock (QuietHandler base) req s =
               (case failure req of
                  None \<Rightarrow> s
                | Some tb \<Rightarrow> handle_error (client_address req) tb s)"
    by (simp add: handle_request_noblock_def log_calls_QuietHandler)
  have out: "stdout (handle_request_noblock (QuietHandler base) req s) = stdout s"
    unfolding run by (simp add: handle_error_def split: option.splits)
  have cls: "attr (QuietHandler base) = attr base \<and>
             init (QuietHandler base) = init base \<and>
             handler base base_dir args = init base args (Some base_dir)"
    by (simp add: QuietHandler_def handler_def)
  from run out cls show ?thesis
    by simp
qed

theorem quiet_handler_silent_unless_handling_raises_witness:
  "handle_request_noblock (QuietHandler stderr_handler) served_request
     \<lparr>stdout = [], stderr = []\<rparr> = \<lparr>stdout = [], stderr = []\<rparr> \<and>
   handle_request_noblock stderr_handler served_request
     \<lparr>stdout = [], stderr = []\<rparr> = \<lparr>stdout = [], stderr = [''%s %s %s'']\<rparr> \<and>
   handle_request_noblock (QuietHandler stderr_handler) reset_request
     \<lparr>stdout = [], stderr = []\<rparr> =
     \<lparr>stdout = [],
      stderr = [''----------------------------------------'',
                ''Exception occurred during processing of request from 127.0.0.1:50001'',
                ''ConnectionResetError: [Errno 104] Connection reset by peer'',
                ''----------------------------------------'']\<rparr>"
proof -
  have completes: "failure served_request = None"
    by (simp add: served_request_def)
  have raises: "failure reset_request =
                  Some [''ConnectionResetError: [Errno 104] Connection reset by peer'']"
    by (simp add: reset_request_def)
  have dashes: "replicate 40 CHR ''-'' = ''----------------------------------------''"
    by code_simp
  have plain: "handle_request_noblock stderr_handler served_request
                 \<lparr>stdout = [], stderr = []\<rparr> = \<lparr>stdout = [], stderr = [''%s %s %s'']\<rparr>"
    by (simp add: handle_request_noblock_def served_request_def stderr_handler_def)
  from quiet_handler_silent_unless_handling_raises
         [of stderr_handler served_request "\<lparr>stdout = [], stderr = []\<rparr>"] completes
  have quiet: "handle_request_noblock (QuietHandler stderr_handler) served_request
                 \<lparr>stdout = [], stderr = []\<rparr> = \<lparr>stdout = [], stderr = []\<rparr>"
    by simp
  from quiet_handler_silent_unless_handling_raises
         [of stderr_handler reset_request "\<lparr>stdout = [], stderr = []\<rparr>"] raises
  have "handle_request_noblock (QuietHandler stderr_handler) reset_request
          \<lparr>stdout = [], stderr = []\<rparr> =
        handle_error (client_address reset_request)
          [''ConnectionResetError: [Errno 104] Connection reset by peer'']
          \<lparr>stdout = [], stderr = []\<rparr>"
    by simp
  with quiet plain dashes show ?thesis
    by (simp add: handle_error_def reset_request_def)
qed

theorem stderr_written_counterexample:
  "handle_request_noblock (QuietHandler stderr_handler) reset_request
     \<lparr>stdout = [], stderr = []\<rparr> \<noteq> \<lparr>stdout = [], stderr = []\<rparr>"
  by (simp add: handle_request_noblock_def reset_request_def handle_error_def)

subsection \<open>Process state outside the listener\<close>

lemma serve_until_interrupt_frame:
  "serve_until_interrupt env h s = (r, s') \<Longrightarrow>
     cwd s' = cwd s \<and>
     (open_listeners s' = open_listeners s \<or>
      open_listeners s' = removeAll h (open_listeners s))"
  by (auto simp: serve_until_interrupt_def server_close_def log_event_def Let_def
        split: result.splits)

text \<open>
  C9, as the code has it. \<open>run_server\<close> does change process state outside the
  listener: its first effect is \<open>os.chdir(base_dir)\<close>. On every path the run takes
  from there, to either fatal exit, to an exception or to the end of serving, the
  current working directory is the base directory when the run is left, and the only
  listener the process can hold then is the one this run bound.
\<close>

theorem run_server_moves_cwd:
  assumes "get_base_dir env = Returns b" and "dir_entries env b = Some es"
  shows "cwd (snd (run_server env (initial_process d))) = b \<and>
         (open_listeners (snd (run_server env (initial_process d))) = [] \<or>
          (\<exists>p. open_listeners (snd (run_server env (initial_process d))) =
                 [\<lparr>server_host = HOST, server_port = p, handler_directory = b\<rparr>]))"
proof -
  let ?s1 = "log_event (Chdir b) ((initial_process d)\<lparr>cwd := b\<rparr>)"
  have s1: "cwd ?s1 = b" "open_listeners ?s1 = []"
    by (simp_all add: log_event_def initial_process_def)
  obtain r s' where run: "run_server env (initial_process d) = (r, s')"
    by force
  have "cwd s' = b \<and>
        (open_listeners s' = [] \<or>
         (\<exists>p. open_listeners s' = [\<lparr>server_host = HOST, server_port = p, handler_directory = b\<rparr>]))"
  proof (cases "es START_PAGE = None")
    case True
    from startup_missing [OF assms True, of "initial_process d"] run
    have "exit_start_page_missing env b ?s1 = (r, s')"
      by simp
    from exit_start_page_missing_frame [OF this, of 0] s1 show ?thesis
      by simp
  next
    case False
    from startup_ok [OF assms False, of "initial_process d"] run
    have "io_bind (probe_ports env b PORT) (\<lambda>(port, httpd).
             case httpd of
               None \<Rightarrow> exit_no_port env
             | Some httpd \<Rightarrow>
                 io_then (print_lines env (banner b (make_url port)))
                (io_then (webbrowser_open env (make_url port))
                         (serve_until_interrupt env httpd))) ?s1 = (r, s')"
      by simp
    then show ?thesis
    proof (cases rule: io_bind_cases)
      case (raised e)
      from probe_ports_frame [OF raised(1), of 0] s1 show ?thesis
        by simp
    next
      case blocked
      from probe_ports_frame [OF blocked(1), of 0] s1 show ?thesis
        by simp
    next
      case (continued y s3)
      obtain port httpd where y: "y = (port, httpd)"
        by (cases y)
      note frame3 = probe_ports_frame [OF continued(1) [unfolded y], of 0]
      show ?thesis
      proof (cases httpd)
        case None
        with continued(2) y have "exit_no_port env s3 = (r, s')"
          by simp
        from exit_no_port_frame [OF this, of 0] frame3 None s1 show ?thesis
          by simp
      next
        case (Some h)
        with frame3 s1
        have h: "h = \<lparr>server_host = HOST, server_port = port, handler_directory = b\<rparr>"
          and s3: "cwd s3 = b" "open_listeners s3 = [h]"
          by simp_all
        from continued(2) y Some
        have "io_then (print_lines env (banner b (make_url port)))
               (io_then (webbrowser_open env (make_url port))
                        (serve_until_interrupt env h)) s3 = (r, s')"
          by simp
        then show ?thesis
        proof (cases rule: io_then_cases)
          case (raised e)
          from print_lines_frame [OF raised(1), of 0] s3 h show ?thesis
            by simp
        next
          case blocked
          from print_lines_frame [OF blocked(1), of 0] s3 h show ?thesis
            by simp
        next
          case (continued u s4)
          from print_lines_frame [OF continued(1), of 0] s3
          have s4: "cwd s4 = b" "open_listeners s4 = [h]"
            by simp_all
          from continued(2) show ?thesis
          proof (cases rule: io_then_cases)
            case (raised e)
            from webbrowser_open_frame [OF raised(1), of 0] s4 h show ?thesis
              by simp
          next
            case blocked
            from webbrowser_open_frame [OF blocked(1), of 0] s4 h show ?thesis
              by simp
          next
            case (continued v s5)
            from webbrowser_open_frame [OF continued(1), of 0] s4
            have s5: "cwd s5 = b" "open_listeners s5 = [h]"
              by simp_all
            from serve_until_interrupt_frame [OF continued(2)] s5 h show ?thesis
              by auto
          qed
        qed
      qed
    qed
  qed
  with run show ?thesis
    by simp
qed

theorem run_server_moves_cwd_witness:
  "cwd (snd (run_server site_env (initial_process ''/home/user''))) = ''/site''"
  using run_server_moves_cwd [of site_env "''/site''" "[''main.html'' \<mapsto> RegularFile]" "''/home/user''"]
  by (simp add: get_base_dir_def getattr_default_def site_env_def)

theorem cwd_unchanged_counterexample:
  "cwd (snd (run_server site_env (initial_process ''/home/user''))) \<noteq>
   cwd (initial_process ''/home/user'')"
  unfolding site_env_run by (simp add: initial_process_def)

subsection \<open>A directory named main.html\<close>

lemma probe_ports_dir_entries:
  "probe_ports (env\<lparr>dir_entries := f\<rparr>) b port s = probe_ports env b port s"
proof (induction env b port s rule: probe_ports.induct)
  case (1 env b port s)
  then show ?case
    by (simp add: probe_ports.simps [of env b port s]
          probe_ports.simps [of "env\<lparr>dir_entries := f\<rparr>" b port s]
          split: result.splits)
qed

lemma print_lines_dir_entries:
  "print_lines (env\<lparr>dir_entries := f\<rparr>) ls s = print_lines env ls s"
  by (induction ls arbitrary: s)
     (simp_all add: py_print_def io_then_def io_bind_def split: result.splits)

lemma run_server_entry_kind:
  assumes "get_base_dir env = Returns b" and "dir_entries env b = Some es"
    and "es START_PAGE \<noteq> None"
  shows "run_server (env\<lparr>dir_entries := (dir_entries env)(b := Some (es(START_PAGE \<mapsto> k)))\<rparr>) s =
         run_server env s"
proof -
  let ?env = "env\<lparr>dir_entries := (dir_entries env)(b := Some (es(START_PAGE \<mapsto> k)))\<rparr>"
  have "get_base_dir ?env = get_base_dir env"
    by (simp add: get_base_dir_def)
  with assms(1) have base: "get_base_dir ?env = Returns b"
    by simp
  have dir: "dir_entries ?env b = Some (es(START_PAGE \<mapsto> k))"
    by simp
  have page: "(es(START_PAGE \<mapsto> k)) START_PAGE \<noteq> None"
    by simp
  have console: "\<And>t. py_print ?env t = py_print env t"
    "\<And>t. py_input ?env t = py_input env t"
    by (simp_all add: py_print_def py_input_def fun_eq_iff)
  have same: "exit_no_port ?env = exit_no_port env"
    "\<And>url. webbrowser_open ?env url = webbrowser_open env url"
    "\<And>h. serve_until_interrupt ?env h = serve_until_interrupt env h"
    by (simp_all add: exit_no_port_def console webbrowser_open_def
          serve_until_interrupt_def fun_eq_iff)
  show ?thesis
    unfolding startup_ok [OF base dir page] startup_ok [OF assms]
    by (simp add: probe_ports_dir_entries print_lines_dir_entries same fun_eq_iff
          io_bind_def io_then_def split: prod.splits result.splits option.splits)
qed

text \<open>
  C10. The validation asks only whether \<open>main.html\<close> names an entry. When the base
  directory holds a subdirectory of that name, the test succeeds and the run is, step
  for step, the run with a regular file in its place: it goes on to the port search,
  and where a port binds, the console works and the browser launch returns, it
  enters \<open>serve_forever\<close> on that port.
\<close>

theorem directory_named_start_page_is_accepted:
  assumes "get_base_dir env = Returns b" and "dir_entries env b = Some es"
    and "es START_PAGE = Some Directory"
  shows "os_path_exists env START_PAGE (snd (os_chdir env b (initial_process d))) \<and>
         run_server env (initial_process d) =
           run_server (env\<lparr>dir_entries :=
                           (dir_entries env)(b := Some (es(START_PAGE \<mapsto> RegularFile)))\<rparr>)
             (initial_process d) \<and>
         (\<forall>p. PORT \<le> p \<and> p < PORT + 20 \<and>
              (\<forall>q. PORT \<le> q \<and> q < p \<longrightarrow> bind_result env q = Raises OSError) \<and>
              bind_result env p = Returns () \<and>
              (\<forall>t. print_result env t = Returns ()) \<and>
              (\<exists>ok. browser_result env (make_url p) = Returns ok) \<longrightarrow>
              Bound p \<in> set (trace (snd (run_server env (initial_process d)))) \<and>
              Serving p \<in> set (trace (snd (run_server env (initial_process d)))))"
proof -
  from assms(3) have page: "es START_PAGE \<noteq> None"
    by simp
  have test: "os_path_exists env START_PAGE (snd (os_chdir env b (initial_process d)))"
    using assms by (simp add: os_path_exists_def os_chdir_def log_event_def)
  have same: "run_server env (initial_process d) =
          run_server (env\<lparr>dir_entries :=
                          (dir_entries env)(b := Some (es(START_PAGE \<mapsto> RegularFile)))\<rparr>)
            (initial_process d)"
    using run_server_entry_kind [OF assms(1,2) page] by simp
  have "Bound p \<in> set (trace (snd (run_server env (initial_process d)))) \<and>
        Serving p \<in> set (trace (snd (run_server env (initial_process d))))"
    if p: "PORT \<le> p \<and> p < PORT + 20 \<and>
              (\<forall>q. PORT \<le> q \<and> q < p \<longrightarrow> bind_result env q = Raises OSError) \<and>
              bind_result env p = Returns () \<and>
              (\<forall>t. print_result env t = Returns ()) \<and>
              (\<exists>ok. browser_result env (make_url p) = Returns ok)" for p
  proof -
  let ?h = "\<lparr>server_host = HOST, server_port = p, handler_directory = b\<rparr>"
  let ?s0 = "log_event (Chdir b) ((initial_process d)\<lparr>cwd := b\<rparr>)"
  let ?s1 = "?s0\<lparr>open_listeners := open_listeners ?s0 @ [?h],
                 trace := trace ?s0 @ map Bind_failed [PORT..p - 1] @ [Bound p]\<rparr>"
  let ?s2 = "?s1\<lparr>trace := trace ?s1 @ map Printed (banner b (make_url p))\<rparr>"
  have probe: "probe_ports env b PORT ?s0 = (Returns (p, Some ?h), ?s1)"
    using p by (intro probe_ports_first_free) simp_all
  have lines: "print_lines env (banner b (make_url p)) ?s1 = (Returns (), ?s2)"
    using p by (intro print_lines_ok) simp
  from p obtain ok where "browser_result env (make_url p) = Returns ok"
    by auto
  then have browser: "webbrowser_open env (make_url p) ?s2 =
                        (Returns ok, log_event (Browser (make_url p)) ?s2)"
    by (simp add: webbrowser_open_def)
  obtain r s' where serve:
    "serve_until_interrupt env ?h (log_event (Browser (make_url p)) ?s2) = (r, s')"
    by force
  have run: "run_server env (initial_process d) = (r, s')"
    using startup_ok [OF assms(1,2) page, of "initial_process d"] probe lines browser serve
    by (simp add: io_bind_def io_then_def)
  from serve_until_interrupt_trace [OF serve] run
  show ?thesis
    by (auto simp: log_event_def)
  qed
  with test same show ?thesis
    by blast
qed

theorem directory_named_start_page_is_accepted_witness:
  "Bound 8000 \<in> set (trace (snd (run_server
      (site_env\<lparr>dir_entries :=
          (\<lambda>d. if d = ''/site'' then Some [''main.html'' \<mapsto> Directory] else None)\<rparr>)
      (initial_process ''/home/user'')))) \<and>
   Serving 8000 \<in> set (trace (snd (run_server
      (site_env\<lparr>dir_entries :=
          (\<lambda>d. if d = ''/site'' then Some [''main.html'' \<mapsto> Directory] else None)\<rparr>)
      (initial_process ''/home/user''))))"
proof -
  let ?env = "site_env\<lparr>dir_entries :=
          (\<lambda>d. if d = ''/site'' then Some [''main.html'' \<mapsto> Directory] else None)\<rparr>"
  have base: "get_base_dir ?env = Returns ''/site''"
    by (simp add: get_base_dir_def getattr_default_def site_env_def)
  have dir: "dir_entries ?env ''/site'' = Some [''main.html'' \<mapsto> Directory]"
    by simp
  have page: "[''main.html'' \<mapsto> Directory] START_PAGE = Some Directory"
    by (simp add: START_PAGE_def)
  have port: "PORT \<le> 8000 \<and> 8000 < PORT + 20 \<and>
              (\<forall>q. PORT \<le> q \<and> q < 8000 \<longrightarrow> bind_result ?env q = Raises OSError) \<and>
              bind_result ?env 8000 = Returns () \<and>
              (\<forall>t. print_result ?env t = Returns ()) \<and>
              (\<exists>ok. browser_result ?env (make_url 8000) = Returns ok)"
    by (auto simp: PORT_def site_env_def)
  from directory_named_start_page_is_accepted [OF base dir page, of "''/home/user''"] port
  show ?thesis
    by blast
qed

end
